theory Spec2Isabelle
  imports Complex_Main "HOL-Library.Sublist"
begin

section \<open>The Gemini service of immiplanner-ai: client factory, resume ingestion, profile analysis\<close>

text \<open>
  The source file holds the bundler configuration and, after it, the service module with
  \<^verbatim>\<open>getAIClient\<close>, \<^verbatim>\<open>fileToGenerativePart\<close>, \<^verbatim>\<open>parseResume\<close> and \<^verbatim>\<open>analyzeProfile\<close>.
  The service module is embedded here. Everything it reaches outside itself (the process
  environment, the browser's FileReader, the model client's \<^verbatim>\<open>generateContent\<close>, the
  runtime's \<^verbatim>\<open>JSON.parse\<close> and number-to-string conversion) is a field of the record
  \<open>env\<close>, so every theorem holds for whatever these do. The console and the requests handed
  to the client are the state \<open>world\<close>, passed explicitly.
\<close>

subsection \<open>JavaScript values, errors and promises\<close>

text \<open>
  A thrown value. \<open>Error\<close> is the source's own \<^verbatim>\<open>new Error(msg)\<close>; the others are what
  the runtime and the libraries throw (the message texts of those are the engine's).
\<close>

datatype js_error = Error string | TypeError string | SyntaxError string | Thrown string

text \<open>
  What an awaited promise does: it resolves, it rejects (a synchronous throw inside a
  \<^verbatim>\<open>try\<close> block is caught the same way), or it never settles.
\<close>

datatype 'a outcome = Resolved 'a | Rejected js_error | Pending

text \<open>A value produced by \<^verbatim>\<open>JSON.parse\<close>; an object lists each key once.\<close>

datatype json =
    JNull
  | JBool bool
  | JNum rat
  | JStr string
  | JArr "json list"
  | JObj "(string \<times> json) list"

text \<open>
  JavaScript truthiness, for a string that may be undefined (\<^verbatim>\<open>!apiKey\<close>,
  \<^verbatim>\<open>if (response.text)\<close>) and for a JSON value that may be undefined
  (\<^verbatim>\<open>data.country || undefined\<close>). The empty string, zero, null, false and undefined are
  falsy; every object and array is truthy.
\<close>

fun truthy_string :: "string option \<Rightarrow> bool" where
  "truthy_string None = False"
| "truthy_string (Some s) = (s \<noteq> [])"

fun truthy :: "json option \<Rightarrow> bool" where
  "truthy None = False"
| "truthy (Some JNull) = False"
| "truthy (Some (JBool b)) = b"
| "truthy (Some (JNum r)) = (r \<noteq> 0)"
| "truthy (Some (JStr s)) = (s \<noteq> [])"
| "truthy (Some (JArr xs)) = True"
| "truthy (Some (JObj kvs)) = True"

text \<open>
  Reading a property \<^verbatim>\<open>data.k\<close> of a parsed value: null has no properties and the read
  throws a TypeError; an object gives the value under the key or undefined; a number,
  string, boolean or array gives undefined for each of the keys the source reads (none of
  them is a property of a prototype).
\<close>

fun get_prop :: "json \<Rightarrow> string \<Rightarrow> js_error + json option" where
  "get_prop JNull k = Inl (TypeError (''Cannot read properties of null, reading '' @ k))"
| "get_prop (JObj kvs) k = Inr (map_of kvs k)"
| "get_prop (JBool b) k = Inr None"
| "get_prop (JNum r) k = Inr None"
| "get_prop (JStr s) k = Inr None"
| "get_prop (JArr xs) k = Inr None"

text \<open>\<^verbatim>\<open>s.split(c)\<close> for a one-character separator, and \<^verbatim>\<open>xs[i]\<close> (undefined out of range).\<close>

fun split_on :: "char \<Rightarrow> string \<Rightarrow> string list" where
  "split_on c [] = [[]]"
| "split_on c (x # xs) =
     (if x = c then [] # split_on c xs
      else (case split_on c xs of [] \<Rightarrow> [[x]] | y # ys \<Rightarrow> (x # y) # ys))"

fun index_opt :: "'a list \<Rightarrow> nat \<Rightarrow> 'a option" where
  "index_opt [] i = None"
| "index_opt (x # xs) 0 = Some x"
| "index_opt (x # xs) (Suc i) = index_opt xs i"

abbreviation nl :: string where
  "nl \<equiv> [CHR 0x0A]"

subsection \<open>The data model\<close>

text \<open>
  Modelled from the spec: the declarations of \<^verbatim>\<open>UserProfile\<close>, \<^verbatim>\<open>UserType\<close> and
  \<^verbatim>\<open>AIAnalysisResult\<close> (module \<^verbatim>\<open>../types\<close>) are not part of the source. The profile has
  the attributes the spec lists, with the names the service reads; text attributes are
  strings, numeric ones numbers, and the two language-test results are optional. The test
  type is text: the source compares it with the string \<^verbatim>\<open>'None'\<close>.
\<close>

record LanguageDetails =
  testType :: string
  overallScore :: rat
  reading :: rat
  writing :: rat
  listening :: rat
  speaking :: rat

record UserProfile =
  name :: string
  age :: rat
  countryOfResidence :: string
  educationLevel :: string
  fieldOfStudy :: string
  workExperienceYears :: rat
  savings :: rat
  settlementFunds :: rat
  languageDetails :: "LanguageDetails option"
  frenchDetails :: "LanguageDetails option"

text \<open>
  Modelled from the spec: \<^verbatim>\<open>UserType\<close> is an enumerated discriminator with the members
  Student and Skilled Worker; \<open>OtherUserType\<close> stands for any further member.
\<close>

datatype UserType = Student | SkilledWorker | OtherUserType string

text \<open>
  An \<^verbatim>\<open>AIAnalysisResult\<close> is a JSON value: the source returns \<^verbatim>\<open>JSON.parse(...)\<close> under a
  type cast, which checks nothing at run time. A partial profile is an object literal:
  its keys in order, each with a value or undefined.
\<close>

type_synonym AIAnalysisResult = json

type_synonym partial_profile = "(string \<times> json option) list"

subsection \<open>Requests, responses and the environment\<close>

datatype schema_type = STRING | NUMBER | ARRAY | OBJECT

datatype schema =
  Schema (stype: schema_type) (items: "schema option")
    (properties: "(string \<times> schema) list option") (required: "string list option")

datatype part = InlineData (data: "string option") (mimeType: string) | TextPart string

datatype content = Parts "part list" | Prompt string

record gen_config =
  responseMimeType :: string
  responseSchema :: schema

record request =
  model :: string
  contents :: content
  config :: gen_config

datatype response = Response (resp_text: "string option")

datatype client = GoogleGenerativeAI string

record File =
  file_type :: string
  file_bytes :: string

text \<open>
  What the FileReader does with a file: the constructor or \<^verbatim>\<open>readAsDataURL\<close> throws, or
  the \<^verbatim>\<open>loadend\<close> event fires with \<^verbatim>\<open>reader.result\<close> a data URL, or null when the read
  failed.
\<close>

datatype read_outcome = ReaderThrows js_error | LoadEnd "string option"

record env =
  apiKey :: "string option"
  readAsDataURL :: "File \<Rightarrow> read_outcome"
  generateContent :: "client \<Rightarrow> request \<Rightarrow> response outcome"
  JSON_parse :: "string \<Rightarrow> js_error + json"
  num_str :: "rat \<Rightarrow> string"

datatype log_arg = LStr string | LErr js_error

record world =
  console :: "log_arg list list"
  calls :: "request list"

definition console_error :: "log_arg list \<Rightarrow> world \<Rightarrow> world" where
  "console_error args w = w\<lparr>console := console w @ [args]\<rparr>"

subsection \<open>getAIClient\<close>

text \<open>The logged text starts with a cross mark, U+274C, here as its three UTF-8 bytes.\<close>

definition key_missing_message :: string where
  "key_missing_message = [CHR 0xE2, CHR 0x9D, CHR 0x8C] @ '' Gemini API Key Missing!''"

definition getAIClient :: "env \<Rightarrow> world \<Rightarrow> (js_error + client) \<times> world" where
  "getAIClient e w =
     (if \<not> truthy_string (apiKey e)
      then (Inl (Error ''Missing Gemini API Key''), console_error [LStr key_missing_message] w)
      else (Inr (GoogleGenerativeAI (the (apiKey e))), w))"

subsection \<open>fileToGenerativePart\<close>

text \<open>
  The promise's executor creates the reader and starts the read: a throw there rejects the
  promise. The \<^verbatim>\<open>loadend\<close> handler resolves it with the text after the first comma of
  the data URL. When the result is null the handler throws on \<^verbatim>\<open>.split\<close> before it
  calls \<^verbatim>\<open>resolve\<close>, and nothing else settles the promise.
\<close>

definition fileToGenerativePart :: "env \<Rightarrow> File \<Rightarrow> part outcome" where
  "fileToGenerativePart e f =
     (case readAsDataURL e f of
        ReaderThrows err \<Rightarrow> Rejected err
      | LoadEnd None \<Rightarrow> Pending
      | LoadEnd (Some url) \<Rightarrow>
          Resolved (InlineData (index_opt (split_on CHR '','' url) 1) (file_type f)))"

subsection \<open>parseResume\<close>

definition resume_prompt :: string where
  "resume_prompt =
     nl @ ''      You are an intelligent immigration resume parser...'' @
     nl @ ''      (rest of your original prompt remains same...)'' @
     nl @ ''    ''"

definition leaf :: "schema_type \<Rightarrow> schema" where
  "leaf t = Schema t None None None"

definition resume_schema :: schema where
  "resume_schema =
     Schema OBJECT None
       (Some [(''name'', leaf STRING),
              (''country'', leaf STRING),
              (''educationLevel'', leaf STRING),
              (''fieldOfStudy'', leaf STRING),
              (''workExperienceYears'', leaf NUMBER),
              (''englishScore'', leaf NUMBER)])
       (Some [''name'', ''educationLevel'', ''fieldOfStudy'', ''workExperienceYears''])"

definition resume_request :: "part \<Rightarrow> request" where
  "resume_request filePart =
     \<lparr>model = ''gemini-2.5-flash'',
      contents = Parts [filePart, TextPart resume_prompt],
      config = \<lparr>responseMimeType = ''application/json'', responseSchema = resume_schema\<rparr>\<rparr>"

text \<open>Sequencing of steps that may throw: the first error ends the computation.\<close>

definition and_then :: "js_error + 'a \<Rightarrow> ('a \<Rightarrow> js_error + 'b) \<Rightarrow> js_error + 'b" where
  "and_then r k = (case r of Inl err \<Rightarrow> Inl err | Inr x \<Rightarrow> k x)"

text \<open>
  The object literal built from the parsed data. The six property reads happen in the
  order written; the first one that throws ends the construction.
\<close>

definition resume_fields :: "json \<Rightarrow> js_error + partial_profile" where
  "resume_fields d =
     and_then (get_prop d ''name'') (\<lambda>n.
     and_then (get_prop d ''country'') (\<lambda>c.
     and_then (get_prop d ''educationLevel'') (\<lambda>el.
     and_then (get_prop d ''fieldOfStudy'') (\<lambda>fs.
     and_then (get_prop d ''workExperienceYears'') (\<lambda>wy.
     and_then (get_prop d ''englishScore'') (\<lambda>es.
       Inr [(''name'', n),
            (''countryOfResidence'', if truthy c then c else None),
            (''educationLevel'', el),
            (''fieldOfStudy'', fs),
            (''workExperienceYears'', wy),
            (''englishScore'', es)]))))))"

text \<open>The \<^verbatim>\<open>catch\<close> block: log the error, return the empty object.\<close>

definition resume_catch :: "js_error \<Rightarrow> world \<Rightarrow> partial_profile outcome \<times> world" where
  "resume_catch err w = (Resolved [], console_error [LStr ''Error parsing resume:'', LErr err] w)"

text \<open>
  \<^verbatim>\<open>getAIClient()\<close> is called before the \<^verbatim>\<open>try\<close> block, so its throw rejects the
  promise \<^verbatim>\<open>parseResume\<close> returns. An awaited promise that never settles leaves
  \<^verbatim>\<open>parseResume\<close> pending. Each call of \<^verbatim>\<open>generateContent\<close> is recorded in \<open>calls\<close>.
\<close>

definition parseResume :: "env \<Rightarrow> File \<Rightarrow> world \<Rightarrow> partial_profile outcome \<times> world" where
  "parseResume e f w =
     (case getAIClient e w of
        (Inl err, w1) \<Rightarrow> (Rejected err, w1)
      | (Inr ai, w1) \<Rightarrow>
          (case fileToGenerativePart e f of
             Pending \<Rightarrow> (Pending, w1)
           | Rejected err \<Rightarrow> resume_catch err w1
           | Resolved filePart \<Rightarrow>
               (let req = resume_request filePart;
                    w2 = w1\<lparr>calls := calls w1 @ [req]\<rparr>
                in case generateContent e ai req of
                     Pending \<Rightarrow> (Pending, w2)
                   | Rejected err \<Rightarrow> resume_catch err w2
                   | Resolved response \<Rightarrow>
                       if truthy_string (resp_text response)
                       then (case JSON_parse e (the (resp_text response)) of
                               Inl err \<Rightarrow> resume_catch err w2
                             | Inr d \<Rightarrow>
                                 (case resume_fields d of
                                    Inl err \<Rightarrow> resume_catch err w2
                                  | Inr p \<Rightarrow> (Resolved p, w2)))
                       else (Resolved [], w2))))"

subsection \<open>analyzeProfile\<close>

definition student_instructions :: string where
  "student_instructions =
     nl @ ''      CONTEXT: USER IS A STUDENT...'' @
     nl @ ''      (your original student logic here)'' @
     nl @ ''    ''"

definition worker_instructions :: string where
  "worker_instructions =
     nl @ ''      CONTEXT: USER IS A SKILLED WORKER...'' @
     nl @ ''      (your original worker logic here)'' @
     nl @ ''    ''"

definition specificInstructions :: "UserType \<Rightarrow> string" where
  "specificInstructions userType =
     (if userType = Student then student_instructions else worker_instructions)"

text \<open>The summary line of one language test, as the two template literals write it.\<close>

definition test_summary :: "env \<Rightarrow> LanguageDetails \<Rightarrow> string" where
  "test_summary e lt =
     testType lt @ '' - Overall:'' @ num_str e (overallScore lt) @
     '', R:'' @ num_str e (reading lt) @
     '', W:'' @ num_str e (writing lt) @
     '', L:'' @ num_str e (listening lt) @
     '', S:'' @ num_str e (speaking lt)"

definition englishInfo :: "env \<Rightarrow> UserProfile \<Rightarrow> string" where
  "englishInfo e profile =
     (case languageDetails profile of
        None \<Rightarrow> ''N/A''
      | Some lt \<Rightarrow> test_summary e lt)"

definition frenchInfo :: "env \<Rightarrow> UserProfile \<Rightarrow> string" where
  "frenchInfo e profile =
     (case frenchDetails profile of
        None \<Rightarrow> ''None''
      | Some fr \<Rightarrow> if testType fr \<noteq> ''None'' then test_summary e fr else ''None'')"

definition commonPrompt :: "env \<Rightarrow> UserProfile \<Rightarrow> string" where
  "commonPrompt e profile =
     nl @ ''    Profile:'' @
     nl @ ''    Name: '' @ name profile @
     nl @ ''    Age: '' @ num_str e (age profile) @
     nl @ ''    Country: '' @ countryOfResidence profile @
     nl @ ''    Education: '' @ educationLevel profile @
     nl @ ''    Work Experience: '' @ num_str e (workExperienceYears profile) @
     nl @ ''    English: '' @ englishInfo e profile @
     nl @ ''    French: '' @ frenchInfo e profile @
     nl @ ''    Savings: '' @ num_str e (savings profile) @
     nl @ ''    Settlement Funds: '' @ num_str e (settlementFunds profile) @
     nl @ ''  ''"

definition analysis_prompt :: "env \<Rightarrow> UserProfile \<Rightarrow> UserType \<Rightarrow> string" where
  "analysis_prompt e profile userType =
     nl @ ''        '' @ specificInstructions userType @
     nl @ ''        '' @ commonPrompt e profile @
     nl @
     nl @ ''        Produce structured JSON output...'' @
     nl @ ''        (your original schema rules unchanged)'' @
     nl @ ''      ''"

definition analysis_schema :: schema where
  "analysis_schema =
     Schema OBJECT None
       (Some [(''overallSuccessProbability'', leaf NUMBER),
              (''crsScorePrediction'', leaf NUMBER),
              (''riskFactors'', Schema ARRAY (Some (leaf STRING)) None None),
              (''strengths'', Schema ARRAY (Some (leaf STRING)) None None),
              (''assumptions'', Schema ARRAY (Some (leaf STRING)) None None),
              (''recommendedPathways'', leaf ARRAY),
              (''otherPathways'', leaf ARRAY),
              (''strategicAdvice'', leaf ARRAY),
              (''futureCrsPredictions'', leaf OBJECT)])
       None"

definition analysis_request :: "env \<Rightarrow> UserProfile \<Rightarrow> UserType \<Rightarrow> request" where
  "analysis_request e profile userType =
     \<lparr>model = ''gemini-2.5-flash'',
      contents = Prompt (analysis_prompt e profile userType),
      config = \<lparr>responseMimeType = ''application/json'', responseSchema = analysis_schema\<rparr>\<rparr>"

definition fallback :: AIAnalysisResult where
  "fallback =
     JObj [(''overallSuccessProbability'', JNum 72),
           (''crsScorePrediction'', JNum 310),
           (''riskFactors'', JArr [JStr ''Missing language test'']),
           (''strengths'', JArr [JStr ''Good financial support'']),
           (''assumptions'', JArr [JStr ''Assumed CLB 5 for missing IELTS'']),
           (''recommendedPathways'', JArr []),
           (''otherPathways'', JArr []),
           (''strategicAdvice'',
              JArr [JStr ''Improve English score'',
                    JStr ''Consider 2-year study leading to PGWP'']),
           (''futureCrsPredictions'',
              JObj [(''current'', JNum 310),
                    (''oneYearStudy'', JNum 335),
                    (''twoYearStudy'', JNum 360),
                    (''twoYearStudyPlusWork'', JNum 470)])]"

text \<open>The \<^verbatim>\<open>catch\<close> block: log the error, return the fallback literal.\<close>

definition analysis_catch :: "js_error \<Rightarrow> world \<Rightarrow> AIAnalysisResult outcome \<times> world" where
  "analysis_catch err w =
     (Resolved fallback, console_error [LStr ''Error analyzing profile:'', LErr err] w)"

text \<open>
  As in \<^verbatim>\<open>parseResume\<close>, the client is obtained before the \<^verbatim>\<open>try\<close> block. A response
  without text makes the source throw \<^verbatim>\<open>Error("No response returned")\<close> inside the
  \<^verbatim>\<open>try\<close> block, which its own \<^verbatim>\<open>catch\<close> receives.
\<close>

definition analyzeProfile ::
    "env \<Rightarrow> UserProfile \<Rightarrow> UserType \<Rightarrow> world \<Rightarrow> AIAnalysisResult outcome \<times> world" where
  "analyzeProfile e profile userType w =
     (case getAIClient e w of
        (Inl err, w1) \<Rightarrow> (Rejected err, w1)
      | (Inr ai, w1) \<Rightarrow>
          (let req = analysis_request e profile userType;
               w2 = w1\<lparr>calls := calls w1 @ [req]\<rparr>
           in case generateContent e ai req of
                Pending \<Rightarrow> (Pending, w2)
              | Rejected err \<Rightarrow> analysis_catch err w2
              | Resolved response \<Rightarrow>
                  if truthy_string (resp_text response)
                  then (case JSON_parse e (the (resp_text response)) of
                          Inl err \<Rightarrow> analysis_catch err w2
                        | Inr d \<Rightarrow> (Resolved d, w2))
                  else analysis_catch (Error ''No response returned'') w2))"

subsection \<open>Example inputs\<close>

text \<open>
  Concrete inputs for the examples below. \<open>integer_str\<close> prints a whole number in decimal
  digits, as the runtime's number-to-string conversion does for whole numbers below
  \<open>10\<^sup>2\<^sup>1\<close>; \<open>example_parse\<close> gives the value of \<^verbatim>\<open>JSON.parse\<close> on four texts and
  refuses every other text. The examples apply them to such numbers and texts only.
\<close>

fun nat_str :: "nat \<Rightarrow> string" where
  "nat_str n =
     (if n < 10 then [''0123456789'' ! n]
      else nat_str (n div 10) @ [''0123456789'' ! (n mod 10)])"

declare nat_str.simps [simp del]

definition integer_str :: "rat \<Rightarrow> string" where
  "integer_str r =
     (if r < 0 then ''-'' @ nat_str (nat (- \<lfloor>r\<rfloor>)) else nat_str (nat \<lfloor>r\<rfloor>))"

definition quoted :: "string \<Rightarrow> string" where
  "quoted s = CHR 0x22 # s @ [CHR 0x22]"

definition canada_text :: string where
  "canada_text =
     ''{'' @ quoted ''name'' @ '':'' @ quoted ''A'' @ '','' @
     quoted ''country'' @ '':'' @ quoted ''Canada'' @ '','' @
     quoted ''educationLevel'' @ '':'' @ quoted ''B'' @ '','' @
     quoted ''fieldOfStudy'' @ '':'' @ quoted ''C'' @ '','' @
     quoted ''workExperienceYears'' @ '':5}''"

definition canada_json :: json where
  "canada_json =
     JObj [(''name'', JStr ''A''), (''country'', JStr ''Canada''), (''educationLevel'', JStr ''B''),
           (''fieldOfStudy'', JStr ''C''), (''workExperienceYears'', JNum 5)]"

definition no_country_text :: string where
  "no_country_text =
     ''{'' @ quoted ''name'' @ '':'' @ quoted ''A'' @ '','' @
     quoted ''educationLevel'' @ '':'' @ quoted ''B'' @ '','' @
     quoted ''fieldOfStudy'' @ '':'' @ quoted ''C'' @ '','' @
     quoted ''workExperienceYears'' @ '':5}''"

definition no_country_json :: json where
  "no_country_json =
     JObj [(''name'', JStr ''A''), (''educationLevel'', JStr ''B''),
           (''fieldOfStudy'', JStr ''C''), (''workExperienceYears'', JNum 5)]"

definition example_parse :: "string \<Rightarrow> js_error + json" where
  "example_parse s =
     (if s = canada_text then Inr canada_json
      else if s = no_country_text then Inr no_country_json
      else if s = ''{}'' then Inr (JObj [])
      else if s = ''null'' then Inr JNull
      else Inl (SyntaxError ''Unexpected token''))"

definition example_env :: "string option \<Rightarrow> response outcome \<Rightarrow> env" where
  "example_env k r =
     \<lparr>apiKey = k,
      readAsDataURL = (\<lambda>f. LoadEnd (Some (''data:'' @ file_type f @ '';base64,'' @ file_bytes f))),
      generateContent = (\<lambda>ai req. r),
      JSON_parse = example_parse,
      num_str = integer_str\<rparr>"

definition example_file :: File where
  "example_file = \<lparr>file_type = ''application/pdf'', file_bytes = ''JVBERi0=''\<rparr>"

definition example_profile :: UserProfile where
  "example_profile =
     \<lparr>name = ''A'', age = 30, countryOfResidence = ''India'', educationLevel = ''B'',
      fieldOfStudy = ''C'', workExperienceYears = 5, savings = 20000, settlementFunds = 15000,
      languageDetails = Some \<lparr>testType = ''IELTS'', overallScore = 7, reading = 7, writing = 6,
                               listening = 8, speaking = 7\<rparr>,
      frenchDetails = Some \<lparr>testType = ''None'', overallScore = 5, reading = 5, writing = 4,
                             listening = 6, speaking = 5\<rparr>\<rparr>"

definition empty_world :: world where
  "empty_world = \<lparr>console = [], calls = []\<rparr>"

subsection \<open>Observing results\<close>

text \<open>
  Reading \<^verbatim>\<open>p.k\<close> of a returned partial profile: undefined when the key is missing or
  holds undefined.
\<close>

definition profile_get :: "partial_profile \<Rightarrow> string \<Rightarrow> json option" where
  "profile_get p k = (case map_of p k of None \<Rightarrow> None | Some v \<Rightarrow> v)"

text \<open>
  The list fields of an analysis result, and the check that a result is an object in which
  each of them is present as an array (possibly empty).
\<close>

definition list_field_names :: "string list" where
  "list_field_names =
     [''riskFactors'', ''strengths'', ''assumptions'', ''recommendedPathways'',
      ''otherPathways'', ''strategicAdvice'']"

fun is_array :: "json option \<Rightarrow> bool" where
  "is_array (Some (JArr xs)) = True"
| "is_array _ = False"

fun list_fields_present :: "json \<Rightarrow> bool" where
  "list_fields_present (JObj kvs) = list_all (\<lambda>k. is_array (map_of kvs k)) list_field_names"
| "list_fields_present _ = False"

section \<open>Properties\<close>

subsection \<open>Shared facts about the client factory and the two operations\<close>

lemma getAIClient_absent:
  "\<not> truthy_string (apiKey e) \<Longrightarrow>
   getAIClient e w = (Inl (Error ''Missing Gemini API Key''), console_error [LStr key_missing_message] w)"
  by (simp add: getAIClient_def)

lemma getAIClient_present:
  "truthy_string (apiKey e) \<Longrightarrow> getAIClient e w = (Inr (GoogleGenerativeAI (the (apiKey e))), w)"
  by (simp add: getAIClient_def)

lemma getAIClient_Inr:
  "fst (getAIClient e w) = Inr ai \<Longrightarrow> getAIClient e w = (Inr ai, w)"
  by (simp add: getAIClient_def split: if_splits)

lemma calls_console_error: "calls (console_error args w) = calls w"
  by (simp add: console_error_def)

lemma console_console_error: "console (console_error args w) = console w @ [args]"
  by (simp add: console_error_def)

lemma analyzeProfile_absent:
  "\<not> truthy_string (apiKey e) \<Longrightarrow>
   analyzeProfile e p u w =
     (Rejected (Error ''Missing Gemini API Key''), console_error [LStr key_missing_message] w)"
  by (simp add: analyzeProfile_def getAIClient_absent)

lemma parseResume_absent:
  "\<not> truthy_string (apiKey e) \<Longrightarrow>
   parseResume e f w =
     (Rejected (Error ''Missing Gemini API Key''), console_error [LStr key_missing_message] w)"
  by (simp add: parseResume_def getAIClient_absent)

lemma analyzeProfile_present_not_rejected:
  "truthy_string (apiKey e) \<Longrightarrow> fst (analyzeProfile e p u w) \<noteq> Rejected err"
  by (simp add: analyzeProfile_def getAIClient_present analysis_catch_def Let_def
      split: outcome.splits sum.splits)

lemma parseResume_present_not_rejected:
  "truthy_string (apiKey e) \<Longrightarrow> fst (parseResume e f w) \<noteq> Rejected err"
  by (simp add: parseResume_def getAIClient_present resume_catch_def Let_def
      split: outcome.splits sum.splits)

subsection \<open>The missing credential\<close>

text \<open>
  Claim C4. When the credential is absent (undefined; the source treats the empty string
  the same way), \<^verbatim>\<open>getAIClient\<close> logs one error and throws the missing-credential
  error, and no request has been handed to the client: not by the factory, and not by
  \<^verbatim>\<open>parseResume\<close> or \<^verbatim>\<open>analyzeProfile\<close>, which call the factory first. Moreover the
  missing-credential error is the only error with which \<^verbatim>\<open>parseResume\<close> or
  \<^verbatim>\<open>analyzeProfile\<close> ever rejects: every other error is caught and replaced.
\<close>

theorem getAIClient_missing_credential:
  "(\<not> truthy_string (apiKey e) \<longrightarrow>
      getAIClient e w =
        (Inl (Error ''Missing Gemini API Key''),
         w\<lparr>console := console w @ [[LStr key_missing_message]]\<rparr>)
      \<and> calls (snd (getAIClient e w)) = calls w
      \<and> calls (snd (parseResume e f w)) = calls w
      \<and> calls (snd (analyzeProfile e p u w)) = calls w)
   \<and> (\<forall>err. fst (parseResume e f w) = Rejected err \<longrightarrow>
         err = Error ''Missing Gemini API Key'' \<and> \<not> truthy_string (apiKey e))
   \<and> (\<forall>err. fst (analyzeProfile e p u w) = Rejected err \<longrightarrow>
         err = Error ''Missing Gemini API Key'' \<and> \<not> truthy_string (apiKey e))"
proof (intro conjI impI allI)
  assume a: "\<not> truthy_string (apiKey e)"
  show "getAIClient e w =
        (Inl (Error ''Missing Gemini API Key''),
         w\<lparr>console := console w @ [[LStr key_missing_message]]\<rparr>)"
    using a by (simp add: getAIClient_absent console_error_def)
  show "calls (snd (getAIClient e w)) = calls w"
    using a by (simp add: getAIClient_absent calls_console_error)
  show "calls (snd (parseResume e f w)) = calls w"
    using a by (simp add: parseResume_absent calls_console_error)
  show "calls (snd (analyzeProfile e p u w)) = calls w"
    using a by (simp add: analyzeProfile_absent calls_console_error)
next
  fix err assume r: "fst (parseResume e f w) = Rejected err"
  show "err = Error ''Missing Gemini API Key''"
    using r parseResume_present_not_rejected[of e f w err] parseResume_absent[of e f w]
    by (cases "truthy_string (apiKey e)") auto
  show "\<not> truthy_string (apiKey e)"
    using r parseResume_present_not_rejected[of e f w err] by blast
next
  fix err assume r: "fst (analyzeProfile e p u w) = Rejected err"
  show "err = Error ''Missing Gemini API Key''"
    using r analyzeProfile_present_not_rejected[of e p u w err] analyzeProfile_absent[of e p u w]
    by (cases "truthy_string (apiKey e)") auto
  show "\<not> truthy_string (apiKey e)"
    using r analyzeProfile_present_not_rejected[of e p u w err] by blast
qed

text \<open>At an environment without a credential and an empty console.\<close>

theorem getAIClient_missing_credential_witness:
  "getAIClient (example_env None Pending) empty_world =
     (Inl (Error ''Missing Gemini API Key''),
      \<lparr>console = [[LStr key_missing_message]], calls = []\<rparr>)
   \<and> calls (snd (parseResume (example_env None Pending) example_file empty_world)) = []
   \<and> calls (snd (analyzeProfile (example_env None Pending) example_profile Student empty_world)) = []"
  using getAIClient_missing_credential
          [of "example_env None Pending" empty_world example_file example_profile Student]
  by (simp add: example_env_def empty_world_def)

lemma analyzeProfile_client:
  "fst (getAIClient e w) = Inr ai \<Longrightarrow>
   analyzeProfile e p u w =
     (case generateContent e ai (analysis_request e p u) of
        Pending \<Rightarrow> (Pending, w\<lparr>calls := calls w @ [analysis_request e p u]\<rparr>)
      | Rejected err \<Rightarrow> analysis_catch err (w\<lparr>calls := calls w @ [analysis_request e p u]\<rparr>)
      | Resolved response \<Rightarrow>
          if truthy_string (resp_text response)
          then (case JSON_parse e (the (resp_text response)) of
                  Inl err \<Rightarrow> analysis_catch err (w\<lparr>calls := calls w @ [analysis_request e p u]\<rparr>)
                | Inr d \<Rightarrow> (Resolved d, w\<lparr>calls := calls w @ [analysis_request e p u]\<rparr>))
          else analysis_catch (Error ''No response returned'')
                 (w\<lparr>calls := calls w @ [analysis_request e p u]\<rparr>))"
  by (simp add: analyzeProfile_def getAIClient_Inr Let_def)

lemma parseResume_client:
  "fst (getAIClient e w) = Inr ai \<Longrightarrow>
   parseResume e f w =
     (case fileToGenerativePart e f of
        Pending \<Rightarrow> (Pending, w)
      | Rejected err \<Rightarrow> resume_catch err w
      | Resolved filePart \<Rightarrow>
          (case generateContent e ai (resume_request filePart) of
             Pending \<Rightarrow> (Pending, w\<lparr>calls := calls w @ [resume_request filePart]\<rparr>)
           | Rejected err \<Rightarrow> resume_catch err (w\<lparr>calls := calls w @ [resume_request filePart]\<rparr>)
           | Resolved response \<Rightarrow>
               if truthy_string (resp_text response)
               then (case JSON_parse e (the (resp_text response)) of
                       Inl err \<Rightarrow> resume_catch err (w\<lparr>calls := calls w @ [resume_request filePart]\<rparr>)
                     | Inr d \<Rightarrow>
                         (case resume_fields d of
                            Inl err \<Rightarrow> resume_catch err (w\<lparr>calls := calls w @ [resume_request filePart]\<rparr>)
                          | Inr p \<Rightarrow> (Resolved p, w\<lparr>calls := calls w @ [resume_request filePart]\<rparr>)))
               else (Resolved [], w\<lparr>calls := calls w @ [resume_request filePart]\<rparr>)))"
  by (simp add: parseResume_def getAIClient_Inr Let_def split: outcome.splits)

lemma getAIClient_fst_present:
  "truthy_string (apiKey e) \<Longrightarrow> fst (getAIClient e w) = Inr (GoogleGenerativeAI (the (apiKey e)))"
  by (simp add: getAIClient_present)

subsection \<open>Analysis: when it resolves, and with what\<close>

text \<open>
  Claim C1 says that \<^verbatim>\<open>analyzeProfile\<close> never rejects, for every profile and user type.
  The source obtains the client before its \<^verbatim>\<open>try\<close> block, so without a credential
  the call rejects with the missing-credential error, whatever the profile.
\<close>

theorem analyzeProfile_counterexample_rejects:
  "fst (analyzeProfile (example_env None (Resolved (Response (Some ''{}'')))) example_profile Student
         empty_world)
   = Rejected (Error ''Missing Gemini API Key'')"
  by (simp add: analyzeProfile_absent example_env_def)

text \<open>
  Claim C1, amended. Without a credential \<^verbatim>\<open>analyzeProfile\<close> rejects with the
  missing-credential error. Once the client is obtained it never rejects, and it resolves
  as soon as the request settles: with the fixed fallback when the request throws, when the
  response has no text and when the text does not parse; with the parsed value otherwise.
\<close>

theorem analyzeProfile_resolves_unless_credential_missing:
  "(\<not> truthy_string (apiKey e) \<longrightarrow>
      fst (analyzeProfile e p u w) = Rejected (Error ''Missing Gemini API Key''))
   \<and> (\<forall>ai. fst (getAIClient e w) = Inr ai \<longrightarrow>
        (\<forall>err. fst (analyzeProfile e p u w) \<noteq> Rejected err)
      \<and> (generateContent e ai (analysis_request e p u) \<noteq> Pending \<longrightarrow>
            (\<exists>r. fst (analyzeProfile e p u w) = Resolved r))
      \<and> (\<forall>err. generateContent e ai (analysis_request e p u) = Rejected err \<longrightarrow>
            fst (analyzeProfile e p u w) = Resolved fallback)
      \<and> (\<forall>resp. generateContent e ai (analysis_request e p u) = Resolved resp \<longrightarrow>
            (\<not> truthy_string (resp_text resp) \<longrightarrow>
               fst (analyzeProfile e p u w) = Resolved fallback)
          \<and> (truthy_string (resp_text resp) \<longrightarrow>
               (\<forall>err. JSON_parse e (the (resp_text resp)) = Inl err \<longrightarrow>
                  fst (analyzeProfile e p u w) = Resolved fallback)
             \<and> (\<forall>d. JSON_parse e (the (resp_text resp)) = Inr d \<longrightarrow>
                  fst (analyzeProfile e p u w) = Resolved d))))"
proof (intro conjI impI allI)
  assume "\<not> truthy_string (apiKey e)"
  then show "fst (analyzeProfile e p u w) = Rejected (Error ''Missing Gemini API Key'')"
    by (simp add: analyzeProfile_absent)
next
  fix ai err assume c: "fst (getAIClient e w) = Inr ai"
  show "fst (analyzeProfile e p u w) \<noteq> Rejected err"
    using c by (simp add: analyzeProfile_client analysis_catch_def split: outcome.splits sum.splits)
next
  fix ai assume c: "fst (getAIClient e w) = Inr ai"
    and s: "generateContent e ai (analysis_request e p u) \<noteq> Pending"
  show "\<exists>r. fst (analyzeProfile e p u w) = Resolved r"
    using c s by (simp add: analyzeProfile_client analysis_catch_def split: outcome.splits sum.splits)
next
  fix ai err assume c: "fst (getAIClient e w) = Inr ai"
    and g: "generateContent e ai (analysis_request e p u) = Rejected err"
  show "fst (analyzeProfile e p u w) = Resolved fallback"
    using c g by (simp add: analyzeProfile_client analysis_catch_def)
next
  fix ai resp assume c: "fst (getAIClient e w) = Inr ai"
    and g: "generateContent e ai (analysis_request e p u) = Resolved resp"
    and t: "\<not> truthy_string (resp_text resp)"
  show "fst (analyzeProfile e p u w) = Resolved fallback"
    using c g t by (simp add: analyzeProfile_client analysis_catch_def)
next
  fix ai resp err assume c: "fst (getAIClient e w) = Inr ai"
    and g: "generateContent e ai (analysis_request e p u) = Resolved resp"
    and t: "truthy_string (resp_text resp)"
    and j: "JSON_parse e (the (resp_text resp)) = Inl err"
  show "fst (analyzeProfile e p u w) = Resolved fallback"
    using c g t j by (simp add: analyzeProfile_client analysis_catch_def)
next
  fix ai resp d assume c: "fst (getAIClient e w) = Inr ai"
    and g: "generateContent e ai (analysis_request e p u) = Resolved resp"
    and t: "truthy_string (resp_text resp)"
    and j: "JSON_parse e (the (resp_text resp)) = Inr d"
  show "fst (analyzeProfile e p u w) = Resolved d"
    using c g t j by (simp add: analyzeProfile_client)
qed

lemma example_client:
  "k \<noteq> [] \<Longrightarrow> fst (getAIClient (example_env (Some k) r) w) = Inr (GoogleGenerativeAI k)"
  by (simp add: getAIClient_def example_env_def)

text \<open>A request that throws, a response that is not JSON, and a missing credential.\<close>

theorem analyzeProfile_resolves_unless_credential_missing_witness:
  "fst (analyzeProfile (example_env (Some ''key'') (Rejected (Thrown ''network down'')))
          example_profile Student empty_world) = Resolved fallback
   \<and> fst (analyzeProfile (example_env (Some ''key'') (Resolved (Response (Some ''not json''))))
          example_profile Student empty_world) = Resolved fallback
   \<and> fst (analyzeProfile (example_env None (Rejected (Thrown ''network down'')))
          example_profile Student empty_world) = Rejected (Error ''Missing Gemini API Key'')"
  using analyzeProfile_resolves_unless_credential_missing
          [of "example_env (Some ''key'') (Rejected (Thrown ''network down''))"
              example_profile Student empty_world]
        analyzeProfile_resolves_unless_credential_missing
          [of "example_env (Some ''key'') (Resolved (Response (Some ''not json'')))"
              example_profile Student empty_world]
        analyzeProfile_resolves_unless_credential_missing
          [of "example_env None (Rejected (Thrown ''network down''))"
              example_profile Student empty_world]
  by (simp add: example_client)
     (simp add: example_env_def example_parse_def canada_text_def no_country_text_def quoted_def)

subsection \<open>Analysis: the fallback literal\<close>

text \<open>
  Claim C3. When the client has been obtained and its model call throws, or resolves with
  a response that has no text (undefined or empty), \<^verbatim>\<open>analyzeProfile\<close> resolves with
  exactly the fallback literal: probability 72, score 310, one risk factor, one strength,
  one assumption, no recommended and no other pathways, two advice strings, and the four
  future scores 310, 335, 360 and 470.
\<close>

theorem analyzeProfile_fallback_literal:
  assumes "fst (getAIClient e w) = Inr ai"
    and "(\<exists>err. generateContent e ai (analysis_request e p u) = Rejected err)
         \<or> (\<exists>resp. generateContent e ai (analysis_request e p u) = Resolved resp
                  \<and> \<not> truthy_string (resp_text resp))"
  shows "fst (analyzeProfile e p u w) =
           Resolved
             (JObj [(''overallSuccessProbability'', JNum 72),
                    (''crsScorePrediction'', JNum 310),
                    (''riskFactors'', JArr [JStr ''Missing language test'']),
                    (''strengths'', JArr [JStr ''Good financial support'']),
                    (''assumptions'', JArr [JStr ''Assumed CLB 5 for missing IELTS'']),
                    (''recommendedPathways'', JArr []),
                    (''otherPathways'', JArr []),
                    (''strategicAdvice'',
                       JArr [JStr ''Improve English score'',
                             JStr ''Consider 2-year study leading to PGWP'']),
                    (''futureCrsPredictions'',
                       JObj [(''current'', JNum 310),
                             (''oneYearStudy'', JNum 335),
                             (''twoYearStudy'', JNum 360),
                             (''twoYearStudyPlusWork'', JNum 470)])])"
proof -
  have "fst (analyzeProfile e p u w) = Resolved fallback"
    using assms by (auto simp add: analyzeProfile_client analysis_catch_def)
  then show ?thesis
    by (simp add: fallback_def)
qed

text \<open>A call that throws, a response without text, and a response with empty text.\<close>

theorem analyzeProfile_fallback_literal_witness:
  "fst (analyzeProfile (example_env (Some ''key'') (Rejected (Thrown ''quota exceeded'')))
          example_profile SkilledWorker empty_world) = Resolved fallback
   \<and> fst (analyzeProfile (example_env (Some ''key'') (Resolved (Response None)))
          example_profile SkilledWorker empty_world) = Resolved fallback
   \<and> fst (analyzeProfile (example_env (Some ''key'') (Resolved (Response (Some ''''))))
          example_profile SkilledWorker empty_world) = Resolved fallback"
  using analyzeProfile_fallback_literal
          [of "example_env (Some ''key'') (Rejected (Thrown ''quota exceeded''))" empty_world
              "GoogleGenerativeAI ''key''" example_profile SkilledWorker]
        analyzeProfile_fallback_literal
          [of "example_env (Some ''key'') (Resolved (Response None))" empty_world
              "GoogleGenerativeAI ''key''" example_profile SkilledWorker]
        analyzeProfile_fallback_literal
          [of "example_env (Some ''key'') (Resolved (Response (Some '''')))" empty_world
              "GoogleGenerativeAI ''key''" example_profile SkilledWorker]
  by (simp add: example_client fallback_def) (simp_all add: example_env_def)

subsection \<open>Resume ingestion: when it resolves, and with what\<close>

text \<open>
  Claim C2 says that \<^verbatim>\<open>parseResume\<close> never rejects, for every file. As in the analysis,
  the client is obtained before the \<^verbatim>\<open>try\<close> block, so without a credential the call
  rejects, whatever the file.
\<close>

theorem parseResume_counterexample_rejects:
  "fst (parseResume (example_env None (Resolved (Response (Some ''{}'')))) example_file empty_world)
   = Rejected (Error ''Missing Gemini API Key'')"
  by (simp add: parseResume_absent example_env_def)

text \<open>
  Claim C2, amended. Without a credential \<^verbatim>\<open>parseResume\<close> rejects with the
  missing-credential error. Once the client is obtained it never rejects. It resolves with
  the empty profile, after logging the error and nothing else, when the encoder's promise
  rejects, when the request throws, when the response text does not parse, and when a
  field of the parsed value cannot be read; it resolves with the empty profile and logs
  nothing when the response has no text.
\<close>

theorem parseResume_empty_profile_unless_credential_missing:
  "(\<not> truthy_string (apiKey e) \<longrightarrow>
      fst (parseResume e f w) = Rejected (Error ''Missing Gemini API Key''))
   \<and> (\<forall>ai. fst (getAIClient e w) = Inr ai \<longrightarrow>
        (\<forall>err. fst (parseResume e f w) \<noteq> Rejected err)
      \<and> (\<forall>err. fileToGenerativePart e f = Rejected err \<longrightarrow>
            fst (parseResume e f w) = Resolved []
          \<and> console (snd (parseResume e f w)) =
              console w @ [[LStr ''Error parsing resume:'', LErr err]])
      \<and> (\<forall>filePart. fileToGenerativePart e f = Resolved filePart \<longrightarrow>
           (\<forall>err. generateContent e ai (resume_request filePart) = Rejected err \<longrightarrow>
              fst (parseResume e f w) = Resolved []
            \<and> console (snd (parseResume e f w)) =
                console w @ [[LStr ''Error parsing resume:'', LErr err]])
         \<and> (\<forall>resp. generateContent e ai (resume_request filePart) = Resolved resp \<longrightarrow>
              (\<not> truthy_string (resp_text resp) \<longrightarrow>
                 fst (parseResume e f w) = Resolved []
               \<and> console (snd (parseResume e f w)) = console w)
            \<and> (truthy_string (resp_text resp) \<longrightarrow>
                 (\<forall>err. JSON_parse e (the (resp_text resp)) = Inl err \<longrightarrow>
                    fst (parseResume e f w) = Resolved []
                  \<and> console (snd (parseResume e f w)) =
                      console w @ [[LStr ''Error parsing resume:'', LErr err]])
               \<and> (\<forall>d err. JSON_parse e (the (resp_text resp)) = Inr d
                            \<and> resume_fields d = Inl err \<longrightarrow>
                    fst (parseResume e f w) = Resolved []
                  \<and> console (snd (parseResume e f w)) =
                      console w @ [[LStr ''Error parsing resume:'', LErr err]])
               \<and> (\<forall>d pp. JSON_parse e (the (resp_text resp)) = Inr d
                           \<and> resume_fields d = Inr pp \<longrightarrow>
                    fst (parseResume e f w) = Resolved pp
                  \<and> console (snd (parseResume e f w)) = console w)))))"
proof (intro conjI impI allI)
  assume "\<not> truthy_string (apiKey e)"
  then show "fst (parseResume e f w) = Rejected (Error ''Missing Gemini API Key'')"
    by (simp add: parseResume_absent)
next
  fix ai err assume c: "fst (getAIClient e w) = Inr ai"
  have "truthy_string (apiKey e)"
    using c by (auto simp add: getAIClient_def split: if_splits)
  then show "fst (parseResume e f w) \<noteq> Rejected err"
    by (rule parseResume_present_not_rejected)
next
  fix ai err assume c: "fst (getAIClient e w) = Inr ai"
    and r: "fileToGenerativePart e f = Rejected err"
  show "fst (parseResume e f w) = Resolved []"
    using c r by (simp add: parseResume_client resume_catch_def)
  show "console (snd (parseResume e f w)) = console w @ [[LStr ''Error parsing resume:'', LErr err]]"
    using c r by (simp add: parseResume_client resume_catch_def console_console_error)
next
  fix ai filePart err assume c: "fst (getAIClient e w) = Inr ai"
    and r: "fileToGenerativePart e f = Resolved filePart"
    and g: "generateContent e ai (resume_request filePart) = Rejected err"
  show "fst (parseResume e f w) = Resolved []"
    using c r g by (simp add: parseResume_client resume_catch_def)
  show "console (snd (parseResume e f w)) = console w @ [[LStr ''Error parsing resume:'', LErr err]]"
    using c r g by (simp add: parseResume_client resume_catch_def console_console_error)
next
  fix ai filePart resp assume c: "fst (getAIClient e w) = Inr ai"
    and r: "fileToGenerativePart e f = Resolved filePart"
    and g: "generateContent e ai (resume_request filePart) = Resolved resp"
    and t: "\<not> truthy_string (resp_text resp)"
  show "fst (parseResume e f w) = Resolved []"
    using c r g t by (simp add: parseResume_client)
  show "console (snd (parseResume e f w)) = console w"
    using c r g t by (simp add: parseResume_client)
next
  fix ai filePart resp err assume c: "fst (getAIClient e w) = Inr ai"
    and r: "fileToGenerativePart e f = Resolved filePart"
    and g: "generateContent e ai (resume_request filePart) = Resolved resp"
    and t: "truthy_string (resp_text resp)"
    and j: "JSON_parse e (the (resp_text resp)) = Inl err"
  show "fst (parseResume e f w) = Resolved []"
    using c r g t j by (simp add: parseResume_client resume_catch_def)
  show "console (snd (parseResume e f w)) = console w @ [[LStr ''Error parsing resume:'', LErr err]]"
    using c r g t j by (simp add: parseResume_client resume_catch_def console_console_error)
next
  fix ai filePart resp d err assume c: "fst (getAIClient e w) = Inr ai"
    and r: "fileToGenerativePart e f = Resolved filePart"
    and g: "generateContent e ai (resume_request filePart) = Resolved resp"
    and t: "truthy_string (resp_text resp)"
    and j: "JSON_parse e (the (resp_text resp)) = Inr d \<and> resume_fields d = Inl err"
  show "fst (parseResume e f w) = Resolved []"
    using c r g t j by (simp add: parseResume_client resume_catch_def)
  show "console (snd (parseResume e f w)) = console w @ [[LStr ''Error parsing resume:'', LErr err]]"
    using c r g t j by (simp add: parseResume_client resume_catch_def console_console_error)
next
  fix ai filePart resp d pp assume c: "fst (getAIClient e w) = Inr ai"
    and r: "fileToGenerativePart e f = Resolved filePart"
    and g: "generateContent e ai (resume_request filePart) = Resolved resp"
    and t: "truthy_string (resp_text resp)"
    and j: "JSON_parse e (the (resp_text resp)) = Inr d \<and> resume_fields d = Inr pp"
  show "fst (parseResume e f w) = Resolved pp"
    using c r g t j by (simp add: parseResume_client)
  show "console (snd (parseResume e f w)) = console w"
    using c r g t j by (simp add: parseResume_client)
qed

lemma example_part:
  "fileToGenerativePart (example_env k r) example_file =
     Resolved (InlineData (Some ''JVBERi0='') ''application/pdf'')"
  by (simp add: fileToGenerativePart_def example_env_def example_file_def)

text \<open>
  A request that throws, a response that is not JSON, a response without text, a response
  that parses to null, and a missing credential.
\<close>

theorem parseResume_empty_profile_unless_credential_missing_witness:
  "parseResume (example_env (Some ''key'') (Rejected (Thrown ''network down''))) example_file empty_world
     = (Resolved [],
        \<lparr>console = [[LStr ''Error parsing resume:'', LErr (Thrown ''network down'')]],
         calls = [resume_request (InlineData (Some ''JVBERi0='') ''application/pdf'')]\<rparr>)
   \<and> fst (parseResume (example_env (Some ''key'') (Resolved (Response (Some ''not json''))))
           example_file empty_world) = Resolved []
   \<and> parseResume (example_env (Some ''key'') (Resolved (Response None))) example_file empty_world
     = (Resolved [],
        \<lparr>console = [],
         calls = [resume_request (InlineData (Some ''JVBERi0='') ''application/pdf'')]\<rparr>)
   \<and> fst (parseResume (example_env (Some ''key'') (Resolved (Response (Some ''null''))))
           example_file empty_world) = Resolved []
   \<and> fst (parseResume (example_env None (Rejected (Thrown ''network down''))) example_file empty_world)
     = Rejected (Error ''Missing Gemini API Key'')"
  using parseResume_empty_profile_unless_credential_missing
          [of "example_env (Some ''key'') (Rejected (Thrown ''network down''))"
              example_file empty_world]
        parseResume_empty_profile_unless_credential_missing
          [of "example_env (Some ''key'') (Resolved (Response (Some ''not json'')))"
              example_file empty_world]
        parseResume_empty_profile_unless_credential_missing
          [of "example_env (Some ''key'') (Resolved (Response None))"
              example_file empty_world]
        parseResume_empty_profile_unless_credential_missing
          [of "example_env (Some ''key'') (Resolved (Response (Some ''null'')))"
              example_file empty_world]
        parseResume_empty_profile_unless_credential_missing
          [of "example_env None (Rejected (Thrown ''network down''))"
              example_file empty_world]
  apply (simp add: example_client example_part parseResume_client)
  apply (simp add: example_env_def example_parse_def canada_text_def no_country_text_def
      quoted_def resume_fields_def and_then_def resume_catch_def console_error_def
      empty_world_def)
  done

subsection \<open>Resume ingestion: the country field\<close>

lemma resume_fields_null:
  "resume_fields JNull = Inl (TypeError (''Cannot read properties of null, reading name''))"
  by (simp add: resume_fields_def and_then_def)

lemma resume_fields_country:
  "get_prop d ''country'' = Inr c \<Longrightarrow>
   \<exists>pp. resume_fields d = Inr pp
      \<and> map_of pp ''countryOfResidence'' = Some (if truthy c then c else None)"
  by (cases d) (simp_all add: resume_fields_def and_then_def)

lemma truthy_not_empty_string: "truthy c \<Longrightarrow> c \<noteq> Some (JStr '''')"
  by auto

text \<open>
  Claim C5. When the client has been obtained, the file encoded, and the response carries
  text that parses as JSON, \<^verbatim>\<open>parseResume\<close> resolves with a profile whose
  \<^verbatim>\<open>countryOfResidence\<close> is the parsed \<^verbatim>\<open>country\<close> when that is truthy and undefined
  otherwise: undefined for an absent, null, empty, zero or false \<^verbatim>\<open>country\<close>, and never
  the empty string. For a parsed object the key \<^verbatim>\<open>countryOfResidence\<close> is present in the
  result with that value; a parsed null, which has no fields to read, gives the empty
  profile, whose \<^verbatim>\<open>countryOfResidence\<close> is undefined as well. A country such as
  \<^verbatim>\<open>"Canada"\<close> is passed through unchanged.
\<close>

theorem parseResume_country_mapping:
  assumes "fst (getAIClient e w) = Inr ai"
    and "fileToGenerativePart e f = Resolved filePart"
    and "generateContent e ai (resume_request filePart) = Resolved resp"
    and "truthy_string (resp_text resp)"
    and "JSON_parse e (the (resp_text resp)) = Inr d"
  shows "\<exists>pp. fst (parseResume e f w) = Resolved pp
           \<and> profile_get pp ''countryOfResidence'' =
               (case get_prop d ''country'' of
                  Inl err \<Rightarrow> None
                | Inr c \<Rightarrow> if truthy c then c else None)
           \<and> profile_get pp ''countryOfResidence'' \<noteq> Some (JStr '''')
           \<and> (\<forall>kvs. d = JObj kvs \<longrightarrow>
                 map_of pp ''countryOfResidence'' =
                   Some (if truthy (map_of kvs ''country'') then map_of kvs ''country'' else None))
           \<and> (get_prop d ''country'' = Inr (Some (JStr ''Canada'')) \<longrightarrow>
                 profile_get pp ''countryOfResidence'' = Some (JStr ''Canada''))"
proof (cases "get_prop d ''country''")
  case (Inl err)
  then have d: "d = JNull"
    by (cases d) simp_all
  have "fst (parseResume e f w) = Resolved []"
    using assms d by (simp add: parseResume_client resume_fields_null resume_catch_def)
  then show ?thesis
    using Inl d by (simp add: profile_get_def)
next
  case (Inr c)
  then obtain pp where pp: "resume_fields d = Inr pp"
    and m: "map_of pp ''countryOfResidence'' = Some (if truthy c then c else None)"
    using resume_fields_country by blast
  have r: "fst (parseResume e f w) = Resolved pp"
    using assms pp by (simp add: parseResume_client)
  have g: "profile_get pp ''countryOfResidence'' = (if truthy c then c else None)"
    using m by (simp add: profile_get_def)
  have n: "profile_get pp ''countryOfResidence'' \<noteq> Some (JStr '''')"
    using g truthy_not_empty_string[of c] by (cases "truthy c") simp_all
  have k: "\<forall>kvs. d = JObj kvs \<longrightarrow>
             map_of pp ''countryOfResidence'' =
               Some (if truthy (map_of kvs ''country'') then map_of kvs ''country'' else None)"
    using Inr m by auto
  have a: "get_prop d ''country'' = Inr (Some (JStr ''Canada'')) \<longrightarrow>
             profile_get pp ''countryOfResidence'' = Some (JStr ''Canada'')"
    using Inr g by auto
  show ?thesis
    using r g n k a Inr by simp
qed

lemma example_parse_canada: "example_parse canada_text = Inr canada_json"
  by (simp add: example_parse_def)

lemma example_parse_no_country: "example_parse no_country_text = Inr no_country_json"
  by (simp add: example_parse_def canada_text_def no_country_text_def quoted_def)

lemma example_env_sel:
  "generateContent (example_env k r) = (\<lambda>ai req. r)"
  "JSON_parse (example_env k r) = example_parse"
  "num_str (example_env k r) = integer_str"
  "apiKey (example_env k r) = k"
  by (simp_all add: example_env_def)

text \<open>
  A response with \<^verbatim>\<open>country: "Canada"\<close>, and the response
  \<^verbatim>\<open>{name:"A", educationLevel:"B", fieldOfStudy:"C", workExperienceYears:5}\<close> without a
  country.
\<close>

theorem parseResume_country_mapping_witness:
  "(\<exists>pp. fst (parseResume (example_env (Some ''key'') (Resolved (Response (Some canada_text))))
                example_file empty_world) = Resolved pp
         \<and> profile_get pp ''countryOfResidence'' = Some (JStr ''Canada''))
   \<and> (\<exists>pp. fst (parseResume (example_env (Some ''key'') (Resolved (Response (Some no_country_text))))
                example_file empty_world) = Resolved pp
         \<and> profile_get pp ''countryOfResidence'' = None
         \<and> map_of pp ''countryOfResidence'' = Some None)"
proof -
  have t1: "truthy_string (Some canada_text)"
    by (simp add: canada_text_def)
  have t2: "truthy_string (Some no_country_text)"
    by (simp add: no_country_text_def)
  have "\<exists>pp. fst (parseResume (example_env (Some ''key'') (Resolved (Response (Some canada_text))))
                example_file empty_world) = Resolved pp
         \<and> profile_get pp ''countryOfResidence'' = Some (JStr ''Canada'')"
    using parseResume_country_mapping
            [of "example_env (Some ''key'') (Resolved (Response (Some canada_text)))" empty_world
                "GoogleGenerativeAI ''key''" example_file
                "InlineData (Some ''JVBERi0='') ''application/pdf''"
                "Response (Some canada_text)" canada_json]
          t1
    by (simp add: example_client example_part example_env_sel example_parse_canada)
       (auto simp add: canada_json_def)
  moreover
  have "\<exists>pp. fst (parseResume (example_env (Some ''key'') (Resolved (Response (Some no_country_text))))
                example_file empty_world) = Resolved pp
         \<and> profile_get pp ''countryOfResidence'' = None
         \<and> map_of pp ''countryOfResidence'' = Some None"
    using parseResume_country_mapping
            [of "example_env (Some ''key'') (Resolved (Response (Some no_country_text)))" empty_world
                "GoogleGenerativeAI ''key''" example_file
                "InlineData (Some ''JVBERi0='') ''application/pdf''"
                "Response (Some no_country_text)" no_country_json]
          t2
    by (simp add: example_client example_part example_env_sel example_parse_no_country)
       (auto simp add: no_country_json_def)
  ultimately show ?thesis
    by blast
qed

subsection \<open>Analysis: the prompt\<close>

lemma analyzeProfile_calls:
  "fst (getAIClient e w) = Inr ai \<Longrightarrow>
   calls (snd (analyzeProfile e p u w)) = calls w @ [analysis_request e p u]"
  by (simp add: analyzeProfile_client analysis_catch_def calls_console_error
      split: outcome.splits sum.splits)

lemma english_line_in_commonPrompt:
  "sublist (nl @ ''    English: '' @ englishInfo e p @ nl) (commonPrompt e p)"
  unfolding sublist_def commonPrompt_def
  apply (rule exI[of _ "nl @ ''    Profile:'' @
     nl @ ''    Name: '' @ name p @
     nl @ ''    Age: '' @ num_str e (age p) @
     nl @ ''    Country: '' @ countryOfResidence p @
     nl @ ''    Education: '' @ educationLevel p @
     nl @ ''    Work Experience: '' @ num_str e (workExperienceYears p)"])
  apply (rule exI[of _ "''    French: '' @ frenchInfo e p @
     nl @ ''    Savings: '' @ num_str e (savings p) @
     nl @ ''    Settlement Funds: '' @ num_str e (settlementFunds p) @
     nl @ ''  ''"])
  apply simp
  done

lemma french_line_in_commonPrompt:
  "sublist (nl @ ''    French: '' @ frenchInfo e p @ nl) (commonPrompt e p)"
  unfolding sublist_def commonPrompt_def
  apply (rule exI[of _ "nl @ ''    Profile:'' @
     nl @ ''    Name: '' @ name p @
     nl @ ''    Age: '' @ num_str e (age p) @
     nl @ ''    Country: '' @ countryOfResidence p @
     nl @ ''    Education: '' @ educationLevel p @
     nl @ ''    Work Experience: '' @ num_str e (workExperienceYears p) @
     nl @ ''    English: '' @ englishInfo e p"])
  apply (rule exI[of _ "''    Savings: '' @ num_str e (savings p) @
     nl @ ''    Settlement Funds: '' @ num_str e (settlementFunds p) @
     nl @ ''  ''"])
  apply simp
  done

lemma commonPrompt_in_analysis_prompt:
  "sublist (commonPrompt e p) (analysis_prompt e p u)"
  unfolding sublist_def analysis_prompt_def
  apply (rule exI[of _ "nl @ ''        '' @ specificInstructions u @ nl @ ''        ''"])
  apply (rule exI[of _ "nl @ nl @ ''        Produce structured JSON output...'' @
     nl @ ''        (your original schema rules unchanged)'' @
     nl @ ''      ''"])
  apply simp
  done

lemma sublist_trans': "sublist xs ys \<Longrightarrow> sublist ys zs \<Longrightarrow> sublist xs zs"
  by (rule sublist_order.order_trans)

lemma test_summary_not_NA: "test_summary e lt \<noteq> ''N/A''"
proof
  assume "test_summary e lt = ''N/A''"
  then have "length (test_summary e lt) = 3"
    by simp
  then show False
    by (simp add: test_summary_def)
qed

text \<open>
  Claim C6. With English details present, the English line is the test type, then
  \<^verbatim>\<open> - Overall:\<close> and the overall score, then the four sub-scores after \<^verbatim>\<open>, R:\<close>,
  \<^verbatim>\<open>, W:\<close>, \<^verbatim>\<open>, L:\<close> and \<^verbatim>\<open>, S:\<close>; without them it is \<^verbatim>\<open>N/A\<close>. The line stands, after
  \<^verbatim>\<open>English: \<close> and up to the end of the line, in the profile text and so in the prompt
  of the request that \<^verbatim>\<open>analyzeProfile\<close> hands to the client.
\<close>

theorem english_line_format:
  "(\<forall>lt. languageDetails p = Some lt \<longrightarrow>
       englishInfo e p =
         testType lt @ '' - Overall:'' @ num_str e (overallScore lt) @
         '', R:'' @ num_str e (reading lt) @ '', W:'' @ num_str e (writing lt) @
         '', L:'' @ num_str e (listening lt) @ '', S:'' @ num_str e (speaking lt))
   \<and> (languageDetails p = None \<longrightarrow> englishInfo e p = ''N/A'')
   \<and> sublist (nl @ ''    English: '' @ englishInfo e p @ nl) (commonPrompt e p)
   \<and> (\<forall>ai. fst (getAIClient e w) = Inr ai \<longrightarrow>
         (\<exists>req prompt. calls (snd (analyzeProfile e p u w)) = calls w @ [req]
            \<and> contents req = Prompt prompt
            \<and> sublist (nl @ ''    English: '' @ englishInfo e p @ nl) prompt))"
proof (intro conjI impI allI)
  fix lt assume "languageDetails p = Some lt"
  then show "englishInfo e p =
         testType lt @ '' - Overall:'' @ num_str e (overallScore lt) @
         '', R:'' @ num_str e (reading lt) @ '', W:'' @ num_str e (writing lt) @
         '', L:'' @ num_str e (listening lt) @ '', S:'' @ num_str e (speaking lt)"
    by (simp add: englishInfo_def test_summary_def)
next
  assume "languageDetails p = None"
  then show "englishInfo e p = ''N/A''"
    by (simp add: englishInfo_def)
next
  show "sublist (nl @ ''    English: '' @ englishInfo e p @ nl) (commonPrompt e p)"
    by (rule english_line_in_commonPrompt)
next
  fix ai assume c: "fst (getAIClient e w) = Inr ai"
  have "calls (snd (analyzeProfile e p u w)) = calls w @ [analysis_request e p u]"
    using c by (rule analyzeProfile_calls)
  moreover have "contents (analysis_request e p u) = Prompt (analysis_prompt e p u)"
    by (simp add: analysis_request_def)
  moreover have "sublist (nl @ ''    English: '' @ englishInfo e p @ nl) (analysis_prompt e p u)"
    using english_line_in_commonPrompt commonPrompt_in_analysis_prompt by (rule sublist_trans')
  ultimately show "\<exists>req prompt. calls (snd (analyzeProfile e p u w)) = calls w @ [req]
            \<and> contents req = Prompt prompt
            \<and> sublist (nl @ ''    English: '' @ englishInfo e p @ nl) prompt"
    by blast
qed

lemma integer_str_digits:
  "integer_str 5 = ''5''" "integer_str 6 = ''6''" "integer_str 7 = ''7''" "integer_str 8 = ''8''"
  "integer_str 4 = ''4''"
  by (simp_all add: integer_str_def nat_str.simps)

text \<open>
  The profile with \<^verbatim>\<open>{testType:"IELTS", overallScore:7, reading:7, writing:6, listening:8,
  speaking:7}\<close>, and the same profile without English details.
\<close>

theorem english_line_format_witness:
  "englishInfo (example_env (Some ''key'') Pending) example_profile
     = ''IELTS - Overall:7, R:7, W:6, L:8, S:7''
   \<and> sublist (nl @ ''    English: '' @ ''IELTS - Overall:7, R:7, W:6, L:8, S:7'' @ nl)
        (commonPrompt (example_env (Some ''key'') Pending) example_profile)
   \<and> englishInfo (example_env (Some ''key'') Pending) (example_profile\<lparr>languageDetails := None\<rparr>)
     = ''N/A''"
proof -
  let ?e = "example_env (Some ''key'') Pending"
  let ?lt = "\<lparr>testType = ''IELTS'', overallScore = 7, reading = 7, writing = 6,
              listening = 8, speaking = 7\<rparr>"
  note t = english_line_format [of example_profile ?e empty_world Student]
  note n = english_line_format
             [of "example_profile\<lparr>languageDetails := None\<rparr>" ?e empty_world Student]
  have l: "languageDetails example_profile = Some ?lt"
    by (simp add: example_profile_def)
  from t l have "englishInfo ?e example_profile =
         testType ?lt @ '' - Overall:'' @ num_str ?e (overallScore ?lt) @
         '', R:'' @ num_str ?e (reading ?lt) @ '', W:'' @ num_str ?e (writing ?lt) @
         '', L:'' @ num_str ?e (listening ?lt) @ '', S:'' @ num_str ?e (speaking ?lt)"
    by blast
  then have a: "englishInfo ?e example_profile = ''IELTS - Overall:7, R:7, W:6, L:8, S:7''"
    by (simp add: example_env_sel integer_str_digits)
  from t have "sublist (nl @ ''    English: '' @ englishInfo ?e example_profile @ nl)
                 (commonPrompt ?e example_profile)"
    by blast
  then have b: "sublist (nl @ ''    English: '' @ ''IELTS - Overall:7, R:7, W:6, L:8, S:7'' @ nl)
                 (commonPrompt ?e example_profile)"
    by (simp only: a)
  from n have c: "englishInfo ?e (example_profile\<lparr>languageDetails := None\<rparr>) = ''N/A''"
    by simp
  from a b c show ?thesis
    by blast
qed

text \<open>
  Claim C7. When the French details are absent, or present with the test type \<^verbatim>\<open>None\<close>,
  the French line is \<^verbatim>\<open>None\<close>, whatever the scores recorded beside that test type; and
  that line stands after \<^verbatim>\<open>French: \<close> in the profile text.
\<close>

theorem french_none_sentinel:
  "(frenchDetails p = None \<longrightarrow> frenchInfo e p = ''None'')
   \<and> (\<forall>fr. frenchDetails p = Some fr \<and> testType fr = ''None'' \<longrightarrow> frenchInfo e p = ''None'')
   \<and> (\<forall>fr. frenchInfo e (p\<lparr>frenchDetails := Some (fr\<lparr>testType := ''None''\<rparr>)\<rparr>) = ''None'')
   \<and> sublist (nl @ ''    French: '' @ frenchInfo e p @ nl) (commonPrompt e p)"
proof (intro conjI impI allI)
  assume "frenchDetails p = None"
  then show "frenchInfo e p = ''None''"
    by (simp add: frenchInfo_def)
next
  fix fr assume "frenchDetails p = Some fr \<and> testType fr = ''None''"
  then show "frenchInfo e p = ''None''"
    by (simp add: frenchInfo_def)
next
  fix fr show "frenchInfo e (p\<lparr>frenchDetails := Some (fr\<lparr>testType := ''None''\<rparr>)\<rparr>) = ''None''"
    by (simp add: frenchInfo_def)
next
  show "sublist (nl @ ''    French: '' @ frenchInfo e p @ nl) (commonPrompt e p)"
    by (rule french_line_in_commonPrompt)
qed

text \<open>
  The example profile has French scores 5, 5, 4, 6, 5 under the test type \<^verbatim>\<open>None\<close>.
\<close>

theorem french_none_sentinel_witness:
  "frenchInfo (example_env (Some ''key'') Pending) example_profile = ''None''
   \<and> frenchInfo (example_env (Some ''key'') Pending) (example_profile\<lparr>frenchDetails := None\<rparr>)
       = ''None''
   \<and> sublist (nl @ ''    French: '' @ ''None'' @ nl)
        (commonPrompt (example_env (Some ''key'') Pending) example_profile)"
proof -
  let ?e = "example_env (Some ''key'') Pending"
  let ?fr = "\<lparr>testType = ''None'', overallScore = 5, reading = 5, writing = 4,
              listening = 6, speaking = 5\<rparr>"
  note t = french_none_sentinel [of example_profile ?e]
  note n = french_none_sentinel [of "example_profile\<lparr>frenchDetails := None\<rparr>" ?e]
  have f: "frenchDetails example_profile = Some ?fr \<and> testType ?fr = ''None''"
    by (simp add: example_profile_def)
  from t f have a: "frenchInfo ?e example_profile = ''None''"
    by blast
  from n have b: "frenchInfo ?e (example_profile\<lparr>frenchDetails := None\<rparr>) = ''None''"
    by simp
  from t have "sublist (nl @ ''    French: '' @ frenchInfo ?e example_profile @ nl)
                 (commonPrompt ?e example_profile)"
    by blast
  then have c: "sublist (nl @ ''    French: '' @ ''None'' @ nl) (commonPrompt ?e example_profile)"
    by (simp only: a)
  from a b c show ?thesis
    by blast
qed

text \<open>
  Claim C10. The sentinel is checked for French only. With English details present the
  English line is the summary line, also when their test type is \<^verbatim>\<open>None\<close>: it then
  starts with \<^verbatim>\<open>None - Overall:\<close>. A summary line is never \<^verbatim>\<open>N/A\<close>. The same details
  under French give \<^verbatim>\<open>None\<close>.
\<close>

theorem english_ignores_none_sentinel:
  "(\<forall>lt. languageDetails p = Some lt \<longrightarrow>
       englishInfo e p = test_summary e lt \<and> englishInfo e p \<noteq> ''N/A'')
   \<and> (\<forall>lt. languageDetails p = Some lt \<and> testType lt = ''None'' \<longrightarrow>
         englishInfo e p =
           ''None - Overall:'' @ num_str e (overallScore lt) @
           '', R:'' @ num_str e (reading lt) @ '', W:'' @ num_str e (writing lt) @
           '', L:'' @ num_str e (listening lt) @ '', S:'' @ num_str e (speaking lt)
       \<and> frenchInfo e (p\<lparr>frenchDetails := Some lt\<rparr>) = ''None'')"
  by (simp add: englishInfo_def frenchInfo_def test_summary_not_NA) (simp add: test_summary_def)

text \<open>The French details of the example profile, given as its English details.\<close>

theorem english_ignores_none_sentinel_witness:
  "englishInfo (example_env (Some ''key'') Pending)
     (example_profile\<lparr>languageDetails := frenchDetails example_profile\<rparr>)
     = ''None - Overall:5, R:5, W:4, L:6, S:5''"
proof -
  let ?e = "example_env (Some ''key'') Pending"
  let ?fr = "\<lparr>testType = ''None'', overallScore = 5, reading = 5, writing = 4,
              listening = 6, speaking = 5\<rparr>"
  let ?p = "example_profile\<lparr>languageDetails := frenchDetails example_profile\<rparr>"
  note t = english_ignores_none_sentinel [of ?p ?e]
  have f: "languageDetails ?p = Some ?fr \<and> testType ?fr = ''None''"
    by (simp add: example_profile_def)
  from t f have "englishInfo ?e ?p =
           ''None - Overall:'' @ num_str ?e (overallScore ?fr) @
           '', R:'' @ num_str ?e (reading ?fr) @ '', W:'' @ num_str ?e (writing ?fr) @
           '', L:'' @ num_str ?e (listening ?fr) @ '', S:'' @ num_str ?e (speaking ?fr)"
    by blast
  then show ?thesis
    by (simp add: example_env_sel integer_str_digits)
qed

subsection \<open>Analysis: the two instruction branches\<close>

text \<open>
  Claim C9. The instruction text is the student text for the user type Student and the
  skilled-worker text for every other user type; the two texts differ, and there is no
  third. The chosen text opens the prompt of the request that \<^verbatim>\<open>analyzeProfile\<close> hands to
  the client.
\<close>

theorem two_instruction_branches:
  "specificInstructions Student = student_instructions
   \<and> (u \<noteq> Student \<longrightarrow> specificInstructions u = worker_instructions)
   \<and> student_instructions \<noteq> worker_instructions
   \<and> (specificInstructions u = student_instructions \<or> specificInstructions u = worker_instructions)
   \<and> prefix (nl @ ''        '' @ specificInstructions u @ nl) (analysis_prompt e p u)
   \<and> (\<forall>ai. fst (getAIClient e w) = Inr ai \<longrightarrow>
         calls (snd (analyzeProfile e p u w)) = calls w @ [analysis_request e p u]
       \<and> contents (analysis_request e p u) = Prompt (analysis_prompt e p u))"
proof (intro conjI impI allI)
  show "specificInstructions Student = student_instructions"
    by (simp add: specificInstructions_def)
  show "student_instructions \<noteq> worker_instructions"
    by (simp add: student_instructions_def worker_instructions_def)
  show "specificInstructions u = student_instructions \<or> specificInstructions u = worker_instructions"
    by (simp add: specificInstructions_def)
  show "prefix (nl @ ''        '' @ specificInstructions u @ nl) (analysis_prompt e p u)"
    by (simp add: analysis_prompt_def)
next
  assume "u \<noteq> Student"
  then show "specificInstructions u = worker_instructions"
    by (simp add: specificInstructions_def)
next
  fix ai assume c: "fst (getAIClient e w) = Inr ai"
  then show "calls (snd (analyzeProfile e p u w)) = calls w @ [analysis_request e p u]"
    by (rule analyzeProfile_calls)
  show "contents (analysis_request e p u) = Prompt (analysis_prompt e p u)"
    by (simp add: analysis_request_def)
qed

text \<open>The skilled-worker member and a further member both take the worker branch.\<close>

theorem two_instruction_branches_witness:
  "specificInstructions SkilledWorker = worker_instructions
   \<and> specificInstructions (OtherUserType ''Visitor'') = worker_instructions
   \<and> calls (snd (analyzeProfile (example_env (Some ''key'') Pending) example_profile Student
                   empty_world))
       = [analysis_request (example_env (Some ''key'') Pending) example_profile Student]
   \<and> prefix (nl @ ''        '' @ student_instructions @ nl)
        (analysis_prompt (example_env (Some ''key'') Pending) example_profile Student)"
proof -
  let ?e = "example_env (Some ''key'') Pending"
  note s = two_instruction_branches [of SkilledWorker ?e example_profile empty_world]
  note v = two_instruction_branches [of "OtherUserType ''Visitor''" ?e example_profile empty_world]
  note t = two_instruction_branches [of Student ?e example_profile empty_world]
  have c: "fst (getAIClient ?e empty_world) = Inr (GoogleGenerativeAI ''key'')"
    by (simp add: example_client)
  from s have a: "specificInstructions SkilledWorker = worker_instructions"
    by simp
  from v have b: "specificInstructions (OtherUserType ''Visitor'') = worker_instructions"
    by simp
  from t c have "calls (snd (analyzeProfile ?e example_profile Student empty_world))
       = calls empty_world @ [analysis_request ?e example_profile Student]"
    by blast
  then have d: "calls (snd (analyzeProfile ?e example_profile Student empty_world))
       = [analysis_request ?e example_profile Student]"
    by (simp add: empty_world_def)
  from t have "prefix (nl @ ''        '' @ specificInstructions Student @ nl)
                 (analysis_prompt ?e example_profile Student)"
    by blast
  moreover from t have "specificInstructions Student = student_instructions"
    by blast
  ultimately have f: "prefix (nl @ ''        '' @ student_instructions @ nl)
                 (analysis_prompt ?e example_profile Student)"
    by simp
  from a b d f show ?thesis
    by blast
qed

subsection \<open>Analysis: the list fields of the result\<close>

text \<open>
  Claim C8 says that every result of \<^verbatim>\<open>analyzeProfile\<close> has its six list fields present.
  The source returns whatever \<^verbatim>\<open>JSON.parse\<close> gives for the response text: when the model
  answers \<^verbatim>\<open>{}\<close>, the result is the empty object, which has none of them.
\<close>

theorem analyzeProfile_counterexample_list_fields:
  "fst (analyzeProfile (example_env (Some ''key'') (Resolved (Response (Some ''{}''))))
          example_profile Student empty_world) = Resolved (JObj [])
   \<and> \<not> list_fields_present (JObj [])"
  by (simp add: analyzeProfile_client example_client)
     (simp add: example_env_def example_parse_def canada_text_def no_country_text_def quoted_def
        list_field_names_def)

text \<open>
  Claim C8, amended. The fallback result has its six list fields present. Every other
  result is the value \<^verbatim>\<open>JSON.parse\<close> gave for the text of the response, unchanged: it has
  the list fields exactly when the model's answer has them.
\<close>

theorem analyzeProfile_list_fields:
  "list_fields_present fallback
   \<and> (\<forall>r. fst (analyzeProfile e p u w) = Resolved r \<longrightarrow>
         r = fallback
       \<or> (\<exists>ai resp. fst (getAIClient e w) = Inr ai
             \<and> generateContent e ai (analysis_request e p u) = Resolved resp
             \<and> truthy_string (resp_text resp)
             \<and> JSON_parse e (the (resp_text resp)) = Inr r))
   \<and> (\<forall>ai resp d. fst (getAIClient e w) = Inr ai
         \<and> generateContent e ai (analysis_request e p u) = Resolved resp
         \<and> truthy_string (resp_text resp)
         \<and> JSON_parse e (the (resp_text resp)) = Inr d \<longrightarrow>
         fst (analyzeProfile e p u w) = Resolved d)"
proof (intro conjI impI allI)
  show "list_fields_present fallback"
    by (simp add: fallback_def list_field_names_def)
next
  fix r assume r: "fst (analyzeProfile e p u w) = Resolved r"
  show "r = fallback
       \<or> (\<exists>ai resp. fst (getAIClient e w) = Inr ai
             \<and> generateContent e ai (analysis_request e p u) = Resolved resp
             \<and> truthy_string (resp_text resp)
             \<and> JSON_parse e (the (resp_text resp)) = Inr r)"
  proof (cases "truthy_string (apiKey e)")
    case False
    then show ?thesis
      using r by (simp add: analyzeProfile_absent)
  next
    case True
    then have c: "fst (getAIClient e w) = Inr (GoogleGenerativeAI (the (apiKey e)))"
      by (rule getAIClient_fst_present)
    show ?thesis
      using r c
      by (auto simp add: analyzeProfile_client [OF c] analysis_catch_def
          split: outcome.splits sum.splits if_splits)
  qed
next
  fix ai resp d
  assume a: "fst (getAIClient e w) = Inr ai
         \<and> generateContent e ai (analysis_request e p u) = Resolved resp
         \<and> truthy_string (resp_text resp)
         \<and> JSON_parse e (the (resp_text resp)) = Inr d"
  then show "fst (analyzeProfile e p u w) = Resolved d"
    by (simp add: analyzeProfile_client)
qed

text \<open>
  A request that throws gives the fallback, which has the list fields; an answer that is an
  object without them is returned as it is.
\<close>

theorem analyzeProfile_list_fields_witness:
  "(\<exists>r. fst (analyzeProfile (example_env (Some ''key'') (Rejected (Thrown ''network down'')))
               example_profile Student empty_world) = Resolved r
        \<and> list_fields_present r)
   \<and> fst (analyzeProfile (example_env (Some ''key'') (Resolved (Response (Some canada_text))))
               example_profile Student empty_world) = Resolved canada_json
   \<and> \<not> list_fields_present canada_json"
proof -
  let ?e = "example_env (Some ''key'') (Rejected (Thrown ''network down''))"
  let ?g = "example_env (Some ''key'') (Resolved (Response (Some canada_text)))"
  note t = analyzeProfile_list_fields [of ?e example_profile Student empty_world]
  note g = analyzeProfile_list_fields [of ?g example_profile Student empty_world]
  have r: "fst (analyzeProfile ?e example_profile Student empty_world) = Resolved fallback"
    by (simp add: analyzeProfile_client example_client example_env_sel analysis_catch_def)
  from t have "list_fields_present fallback"
    by blast
  with r have a: "\<exists>r. fst (analyzeProfile ?e example_profile Student empty_world) = Resolved r
        \<and> list_fields_present r"
    by blast
  have h: "fst (getAIClient ?g empty_world) = Inr (GoogleGenerativeAI ''key'')
         \<and> generateContent ?g (GoogleGenerativeAI ''key'')
              (analysis_request ?g example_profile Student) = Resolved (Response (Some canada_text))
         \<and> truthy_string (resp_text (Response (Some canada_text)))
         \<and> JSON_parse ?g (the (resp_text (Response (Some canada_text)))) = Inr canada_json"
    by (simp add: example_client example_env_sel example_parse_canada) (simp add: canada_text_def)
  from g h have b: "fst (analyzeProfile ?g example_profile Student empty_world) = Resolved canada_json"
    by blast
  have c: "\<not> list_fields_present canada_json"
    by (simp add: canada_json_def list_field_names_def)
  from a b c show ?thesis
    by blast
qed

end
